theory Spec2Isabelle
  imports Complex_Main "HOL-Library.List_Lexorder" "HOL-Library.Char_ord" "HOL-Library.Sublist"
    "HOL-Library.AList" "HOL-Library.Multiset"
begin

section \<open>Data model of \<^verbatim>\<open>src/app/page.tsx\<close>\<close>

text \<open>
  \<^verbatim>\<open>type Topic = string | { name: string }\<close> and \<^verbatim>\<open>type ToolRow\<close>. A JavaScript string is
  a \<open>string\<close>; the optional \<^verbatim>\<open>score: number | null\<close> is a \<open>real option\<close> (a JSON number is
  a finite double, and the only operations on it are the comparisons with 8 and 6.5, both
  exact doubles). The field \<^verbatim>\<open>id\<close> is written \<open>id'\<close>, since \<open>id\<close> is the identity of HOL.
\<close>

datatype Topic = TopicString string | TopicObject string

record ToolRow =
  id' :: string
  name :: string
  tagline :: string
  topics :: "Topic list"
  thumbnail_url :: string
  website :: string
  created_at :: string
  score :: "real option"

definition ROWS_OPTIONS :: "int list" where
  "ROWS_OPTIONS = [10, 20, 30, 40, 50]"

definition TIME_RANGES :: "(string \<times> int) list" where
  "TIME_RANGES = [(''Last 3 months'', 90), (''Last 30 days'', 30), (''Last 7 days'', 7)]"

text \<open>
  A count of the chart: the code means a number, and line 124 can also produce a string
  (see \<open>bump\<close> below).
\<close>

datatype Count = Number nat | Text string

text \<open>
  The state of the component \<^verbatim>\<open>Home\<close>: one field per \<^verbatim>\<open>useState\<close> cell, with the initial
  values of lines 72 to 81. \<open>total\<close> only ever holds 0 or an array length.
\<close>

record Home =
  tools :: "ToolRow list"
  page :: int
  total :: nat
  loading :: bool
  rowsPerPage :: int
  chartRange :: int
  chartData :: "(string \<times> Count) list"
  chartLoading :: bool
  chartError :: "string option"
  tableError :: "string option"

definition initialHome :: Home where
  "initialHome =
     \<lparr>tools = [], page = 1, total = 0, loading = True, rowsPerPage = 10, chartRange = 90,
      chartData = [], chartLoading = False, chartError = None, tableError = None\<rparr>"

section \<open>The table pipeline\<close>

text \<open>
  \<^verbatim>\<open>Array.prototype.slice(start, end)\<close>: a negative index counts from the end, both
  indices are clamped to the length, and an empty window gives the empty array.
\<close>

definition slice :: "'a list \<Rightarrow> int \<Rightarrow> int \<Rightarrow> 'a list" where
  "slice xs start end' =
     (let len = int (length xs);
          k = (if start < 0 then max (len + start) 0 else min start len);
          final = (if end' < 0 then max (len + end') 0 else min end' len)
      in take (nat (final - k)) (drop (nat k) xs))"

text \<open>
  Lines 92 to 94: \<^verbatim>\<open>from = (page - 1) * rowsPerPage\<close>, \<^verbatim>\<open>to = from + rowsPerPage\<close>,
  \<^verbatim>\<open>paginated = data.slice(from, to)\<close>.
\<close>

definition paginated :: "'a list \<Rightarrow> int \<Rightarrow> int \<Rightarrow> 'a list" where
  "paginated data pg rows =
     (let from = (pg - 1) * rows; to = from + rows in slice data from to)"

text \<open>
  What one \<^verbatim>\<open>await fetch(...)\<close> followed by \<^verbatim>\<open>await res.json()\<close> can do: reject or throw
  with an error whose \<^verbatim>\<open>message\<close> is the given string (a network failure, a body that does not
  parse), answer with \<^verbatim>\<open>res.ok\<close> false, or deliver the array of records.
\<close>

datatype FetchOutcome = Threw string | NotOk | Delivered "ToolRow list"

definition endpoint :: string where
  "endpoint = ''/api/similar-tools''"

text \<open>
  The \<^verbatim>\<open>try\<close> block of \<^verbatim>\<open>fetchData\<close> (lines 88 to 96): \<open>Inl\<close> is the message of the error
  thrown, \<open>Inr\<close> the page of rows and the length handed to \<^verbatim>\<open>setTools\<close> and \<^verbatim>\<open>setTotal\<close>.
  \<open>pg\<close> and \<open>rows\<close> are the values of \<^verbatim>\<open>page\<close> and \<^verbatim>\<open>rowsPerPage\<close> the effect closed over.
\<close>

definition fetchData_try :: "int \<Rightarrow> int \<Rightarrow> FetchOutcome \<Rightarrow> string + (ToolRow list \<times> nat)" where
  "fetchData_try pg rows outcome =
     (case outcome of
        Threw msg \<Rightarrow> Inl msg
      | NotOk \<Rightarrow> Inl ''Failed to fetch tools''
      | Delivered data \<Rightarrow> Inr (paginated data pg rows, length data))"

text \<open>
  The whole of \<^verbatim>\<open>fetchData\<close> with its \<^verbatim>\<open>catch\<close> and \<^verbatim>\<open>finally\<close> (lines 97 to 103);
  \<^verbatim>\<open>err.message || 'Error loading tools'\<close> replaces an empty message.
\<close>

definition fetchData :: "int \<Rightarrow> int \<Rightarrow> FetchOutcome \<Rightarrow> Home \<Rightarrow> Home" where
  "fetchData pg rows outcome s =
     (case fetchData_try pg rows outcome of
        Inr (rows_of_page, n) \<Rightarrow> s\<lparr>tools := rows_of_page, total := n, loading := False\<rparr>
      | Inl msg \<Rightarrow>
          s\<lparr>tableError := Some (if msg = [] then ''Error loading tools'' else msg),
            tools := [], total := 0, loading := False\<rparr>)"

text \<open>The synchronous head of the table effect (lines 84 and 85).\<close>

definition tableEffect :: "Home \<Rightarrow> Home" where
  "tableEffect s = s\<lparr>loading := True, tableError := None\<rparr>"

text \<open>
  One cycle of the table pipeline: the effect runs in state \<open>s\<close>, closes over its page and
  page size, and its fetch completes with \<open>outcome\<close> before anything else happens.
\<close>

definition tableCycle :: "FetchOutcome \<Rightarrow> Home \<Rightarrow> Home" where
  "tableCycle outcome s = fetchData (page s) (rowsPerPage s) outcome (tableEffect s)"

text \<open>
  Line 140: \<^verbatim>\<open>Math.ceil(total / rowsPerPage) || 1\<close>. The quotient is the real one; \<^verbatim>\<open>|| 1\<close>
  replaces a ceiling of 0 (and the \<^verbatim>\<open>NaN\<close> of \<^verbatim>\<open>0 / 0\<close>) by 1. A page size of 0 with a
  positive total gives \<^verbatim>\<open>Infinity\<close> in JavaScript, which no integer models: the selector
  offers the positive \<open>ROWS_OPTIONS\<close> only, and the theorems below assume a positive size.
\<close>

definition totalPages :: "nat \<Rightarrow> int \<Rightarrow> int" where
  "totalPages n rows = (let c = \<lceil>real n / real_of_int rows\<rceil> in if c = 0 then 1 else c)"

definition totalPagesOf :: "Home \<Rightarrow> int" where
  "totalPagesOf s = totalPages (total s) (rowsPerPage s)"

text \<open>
  What the table body shows (lines 229 to 304): \<^verbatim>\<open>loading ? ... : tableError ? ... :
  tools.length === 0 ? ... : rows\<close>. An empty error string is falsy.
\<close>

datatype TableView = ShowLoading | ShowError string | ShowNoTools | ShowRows "ToolRow list"

definition tableView :: "Home \<Rightarrow> TableView" where
  "tableView s =
     (if loading s then ShowLoading
      else case tableError s of
        Some msg \<Rightarrow>
          if msg \<noteq> [] then ShowError msg
          else if length (tools s) = 0 then ShowNoTools else ShowRows (tools s)
      | None \<Rightarrow> if length (tools s) = 0 then ShowNoTools else ShowRows (tools s))"

subsection \<open>Pagination controls\<close>

text \<open>
  Line 313, the rows-per-page selector: \<^verbatim>\<open>setRowsPerPage(Number(val)); setPage(1)\<close>. The
  argument is the number \<^verbatim>\<open>Number(val)\<close>; the selector's items are the \<open>ROWS_OPTIONS\<close>.
\<close>

definition onValueChange :: "int \<Rightarrow> Home \<Rightarrow> Home" where
  "onValueChange val s = s\<lparr>rowsPerPage := val, page := 1\<rparr>"

text \<open>The four buttons of lines 328 to 339, their click handlers and \<^verbatim>\<open>disabled\<close> flags.\<close>

datatype PagerButton = FirstPage | PreviousPage | NextPage | LastPage

fun onClick :: "PagerButton \<Rightarrow> Home \<Rightarrow> Home" where
  "onClick FirstPage s = s\<lparr>page := 1\<rparr>"
| "onClick PreviousPage s = s\<lparr>page := max 1 (page s - 1)\<rparr>"
| "onClick NextPage s = s\<lparr>page := min (totalPagesOf s) (page s + 1)\<rparr>"
| "onClick LastPage s = s\<lparr>page := totalPagesOf s\<rparr>"

fun disabled :: "PagerButton \<Rightarrow> Home \<Rightarrow> bool" where
  "disabled FirstPage s = (page s = 1)"
| "disabled PreviousPage s = (page s = 1)"
| "disabled NextPage s = (page s = totalPagesOf s \<or> totalPagesOf s = 0)"
| "disabled LastPage s = (page s = totalPagesOf s \<or> totalPagesOf s = 0)"

text \<open>A press of a button: a disabled button fires no handler.\<close>

definition press :: "PagerButton \<Rightarrow> Home \<Rightarrow> Home" where
  "press b s = (if disabled b s then s else onClick b s)"

text \<open>
  What can happen to the table pipeline, one event at a time: a button is pressed, a page
  size is selected, or a fetch started earlier completes (with the page and page size its
  effect closed over, and any outcome). After a press or a selection that changed
  \<^verbatim>\<open>page\<close> or \<^verbatim>\<open>rowsPerPage\<close> the effect of lines 83 to 106 runs its synchronous head.
\<close>

datatype TableEvent = Pressed PagerButton | RowsSelected int | FetchCompleted int int FetchOutcome

definition rerun :: "Home \<Rightarrow> Home \<Rightarrow> Home" where
  "rerun s s' =
     (if page s' \<noteq> page s \<or> rowsPerPage s' \<noteq> rowsPerPage s then tableEffect s' else s')"

fun tableStep :: "TableEvent \<Rightarrow> Home \<Rightarrow> Home" where
  "tableStep (Pressed b) s = rerun s (press b s)"
| "tableStep (RowsSelected val) s = rerun s (onValueChange val s)"
| "tableStep (FetchCompleted pg rows outcome) s = fetchData pg rows outcome s"

text \<open>The states after each event of a sequence, in order.\<close>

fun tableTrace :: "TableEvent list \<Rightarrow> Home \<Rightarrow> Home list" where
  "tableTrace [] s = []"
| "tableTrace (e # es) s = tableStep e s # tableTrace es (tableStep e s)"

fun offered :: "TableEvent \<Rightarrow> bool" where
  "offered (RowsSelected val) = (val \<in> set ROWS_OPTIONS)"
| "offered _ = True"

subsection \<open>Score badge\<close>

text \<open>
  Lines 270 to 290: \<^verbatim>\<open>score === null || score === undefined\<close> shows "Not tried yet",
  \<^verbatim>\<open>score >= 8\<close> "Great!", \<^verbatim>\<open>score >= 6.5\<close> "Pretty good", anything else "meh..".
\<close>

datatype ScoreBadge = NotTriedYet | Great | PrettyGood | Meh

definition scoreBadge :: "real option \<Rightarrow> ScoreBadge" where
  "scoreBadge sc =
     (case sc of
        None \<Rightarrow> NotTriedYet
      | Some x \<Rightarrow> if x \<ge> 8 then Great else if x \<ge> 6.5 then PrettyGood else Meh)"

fun badgeLabel :: "ScoreBadge \<Rightarrow> string" where
  "badgeLabel NotTriedYet = ''Not tried yet''"
| "badgeLabel Great = ''Great!''"
| "badgeLabel PrettyGood = ''Pretty good''"
| "badgeLabel Meh = ''meh..''"

section \<open>The chart pipeline\<close>

text \<open>
  JavaScript compares strings by code unit, a proper prefix before its extensions: the
  order \<open>\<le>\<close> of \<open>string\<close> here (lists ordered lexicographically, characters by code).
\<close>

subsection \<open>The clock\<close>

text \<open>
  Lines 117 to 119 read the clock: \<^verbatim>\<open>since = new Date()\<close>,
  \<^verbatim>\<open>since.setDate(since.getDate() - chartRange)\<close>,
  \<^verbatim>\<open>sinceStr = since.toISOString().split('T')[0]\<close>. \<^verbatim>\<open>Date\<close> belongs to the runtime, not
  to the repository, and what it answers is an input of the model: the local calendar day
  of the moment, counted in days since 1970-01-01, the minute of that day, and for every
  local day the minutes by which local time is ahead of UTC.
\<close>

record Clock =
  localDay :: int
  minuteOfDay :: int
  utcOffset :: "int \<Rightarrow> int"

text \<open>
  \<open>civil\<close> gives year, month and day of a day count in the proleptic Gregorian calendar;
  \<^verbatim>\<open>toISOString\<close> writes a year from 0 to 9999 with four digits and any other with a sign
  and six digits.
\<close>

definition civil :: "int \<Rightarrow> int \<times> int \<times> int" where
  "civil n =
     (let z = n + 719468;
          era = z div 146097;
          doe = z mod 146097;
          yoe = (doe - doe div 1460 + doe div 36524 - doe div 146096) div 365;
          y = yoe + era * 400;
          doy = doe - (365 * yoe + yoe div 4 - yoe div 100);
          mp = (5 * doy + 2) div 153;
          d = doy - (153 * mp + 2) div 5 + 1;
          m = (if mp < 10 then mp + 3 else mp - 9)
      in (if m \<le> 2 then y + 1 else y, m, d))"

definition digit :: "int \<Rightarrow> char" where
  "digit n = ''0123456789'' ! nat (n mod 10)"

definition digits2 :: "int \<Rightarrow> string" where
  "digits2 n = [digit (n div 10), digit n]"

definition yearString :: "int \<Rightarrow> string" where
  "yearString y =
     (if 0 \<le> y \<and> y \<le> 9999 then digits2 (y div 100) @ digits2 y
      else (if y < 0 then ''-'' else ''+'') @
           digits2 (\<bar>y\<bar> div 10000) @ digits2 (\<bar>y\<bar> div 100) @ digits2 \<bar>y\<bar>)"

definition toISODate :: "int \<Rightarrow> string" where
  "toISODate n =
     (case civil n of (y, m, d) \<Rightarrow> yearString y @ ''-'' @ digits2 m @ ''-'' @ digits2 d)"

text \<open>
  \<^verbatim>\<open>getDate\<close> and \<^verbatim>\<open>setDate\<close> work on the local calendar: a day of the month below 1
  moves into the months before, so the local day goes back by \<open>days\<close> and the time of day
  stays. \<^verbatim>\<open>toISOString\<close> writes the moment in UTC, and the date is its first part.
\<close>

definition sinceStr :: "Clock \<Rightarrow> int \<Rightarrow> string" where
  "sinceStr clock days =
     (let day = localDay clock - days;
          utcMinutes = day * 1440 + minuteOfDay clock - utcOffset clock day
      in toISODate (utcMinutes div 1440))"

text \<open>The date of today on the local calendar, and a clock at noon in the UTC zone.\<close>

definition todayStr :: "Clock \<Rightarrow> string" where
  "todayStr clock = toISODate (localDay clock)"

definition utcNoon :: "int \<Rightarrow> Clock" where
  "utcNoon day = \<lparr>localDay = day, minuteOfDay = 720, utcOffset = (\<lambda>_. 0)\<rparr>"

subsection \<open>Grouping by date\<close>

text \<open>\<^verbatim>\<open>tool.created_at.split('T')[0]\<close>: the text before the first \<^verbatim>\<open>T\<close>.\<close>

definition dateOf :: "ToolRow \<Rightarrow> string" where
  "dateOf tool = takeWhile (\<lambda>c. c \<noteq> CHR ''T'') (created_at tool)"

text \<open>
  The object \<^verbatim>\<open>dateCounts\<close> starts as \<^verbatim>\<open>{}\<close> and is the list of its own properties in the
  order of their creation. A value in it is a number or, as shown below, a string.
  Line 124 is \<^verbatim>\<open>dateCounts[date] = (dateCounts[date] || 0) + 1\<close>.

  The read \<^verbatim>\<open>dateCounts[date]\<close> gives the own property when there is one; otherwise, when
  \<open>date\<close> names a member that every object inherits from \<^verbatim>\<open>Object.prototype\<close>, it gives
  that member, a function (or, for \<^verbatim>\<open>__proto__\<close>, the prototype object), which is truthy;
  otherwise it gives \<^verbatim>\<open>undefined\<close>. \<^verbatim>\<open>||\<close> replaces a falsy value (\<^verbatim>\<open>undefined\<close>, 0, the
  empty string) by 0. \<^verbatim>\<open>+ 1\<close> adds 1 to a number and appends \<^verbatim>\<open>"1"\<close> to a string; a
  function or object is first turned into its text, \<open>inheritedText\<close>, which is given here
  in the wording of V8.

  The write creates the own property, last in the order, or replaces its value in place.
  For \<^verbatim>\<open>__proto__\<close> the write is the inherited setter, which ignores a value that is not
  an object: no property is created.
\<close>

definition inheritedMembers :: "string list" where
  "inheritedMembers =
     [''constructor'', ''__defineGetter__'', ''__defineSetter__'', ''hasOwnProperty'',
      ''__lookupGetter__'', ''__lookupSetter__'', ''isPrototypeOf'', ''propertyIsEnumerable'',
      ''toString'', ''valueOf'', ''__proto__'', ''toLocaleString'']"

definition inheritedText :: "string \<Rightarrow> string" where
  "inheritedText member =
     (if member = ''__proto__'' then ''[object Object]''
      else ''function '' @ (if member = ''constructor'' then ''Object'' else member) @
           ''() { [native code] }'')"

definition readOrZeroPlusOne :: "(string \<times> Count) list \<Rightarrow> string \<Rightarrow> Count" where
  "readOrZeroPlusOne dateCounts date =
     (case map_of dateCounts date of
        Some (Number n) \<Rightarrow> Number ((if n = 0 then 0 else n) + 1)
      | Some (Text t) \<Rightarrow> if t = [] then Number (0 + 1) else Text (t @ ''1'')
      | None \<Rightarrow>
          if date \<in> set inheritedMembers then Text (inheritedText date @ ''1'')
          else Number (0 + 1))"

definition bump :: "(string \<times> Count) list \<Rightarrow> string \<Rightarrow> (string \<times> Count) list" where
  "bump dateCounts date =
     (if date = ''__proto__'' then dateCounts
      else AList.update date (readOrZeroPlusOne dateCounts date) dateCounts)"

definition countDates :: "ToolRow list \<Rightarrow> (string \<times> Count) list" where
  "countDates filtered = foldl (\<lambda>dateCounts tool. bump dateCounts (dateOf tool)) [] filtered"

text \<open>The numbers among the counts of a series, and their sum.\<close>

fun numeric :: "Count \<Rightarrow> nat option" where
  "numeric (Number n) = Some n"
| "numeric (Text t) = None"

definition sumOfNumbers :: "(string \<times> Count) list \<Rightarrow> nat" where
  "sumOfNumbers series = sum_list (map (\<lambda>p. case numeric (snd p) of Some n \<Rightarrow> n | None \<Rightarrow> 0) series)"

text \<open>
  \<^verbatim>\<open>Object.entries\<close> lists the properties whose key is an array index (the decimal
  numeral, without leading zeros, of an integer below \<open>2^32 - 1\<close>) first, by ascending
  index, then the others in the order of their creation.
\<close>

definition isDigit :: "char \<Rightarrow> bool" where
  "isDigit c = (c \<in> set ''0123456789'')"

definition indexValue :: "string \<Rightarrow> nat" where
  "indexValue key = foldl (\<lambda>n c. 10 * n + (of_char c - 48)) 0 key"

definition isArrayIndex :: "string \<Rightarrow> bool" where
  "isArrayIndex key =
     (key \<noteq> [] \<and> list_all isDigit key \<and> (key = ''0'' \<or> hd key \<noteq> CHR ''0'') \<and>
      indexValue key < 4294967295)"

definition entries :: "(string \<times> Count) list \<Rightarrow> (string \<times> Count) list" where
  "entries obj =
     sort_key (\<lambda>p. indexValue (fst p)) (filter (\<lambda>p. isArrayIndex (fst p)) obj) @
     filter (\<lambda>p. \<not> isArrayIndex (fst p)) obj"

subsection \<open>Sorting\<close>

text \<open>
  \<^verbatim>\<open>Array.prototype.sort\<close> with a comparison function is stable; for a comparison that is
  consistent its result is the one of the insertion sort below (which element comes
  first when the comparison is inconsistent is left to the engine, and the model then
  follows the insertion sort). \<^verbatim>\<open>String.prototype.localeCompare\<close> is the collation of the
  runtime's locale and is a parameter of the model wherever the code calls it;
  \<open>codeUnitCompare\<close> is the comparison by code unit, one instance.
\<close>

fun insertWith :: "('a \<Rightarrow> 'a \<Rightarrow> int) \<Rightarrow> 'a \<Rightarrow> 'a list \<Rightarrow> 'a list" where
  "insertWith cmp x [] = [x]"
| "insertWith cmp x (y # ys) = (if cmp x y \<le> 0 then x # y # ys else y # insertWith cmp x ys)"

definition sortWith :: "('a \<Rightarrow> 'a \<Rightarrow> int) \<Rightarrow> 'a list \<Rightarrow> 'a list" where
  "sortWith cmp xs = foldr (insertWith cmp) xs []"

definition codeUnitCompare :: "string \<Rightarrow> string \<Rightarrow> int" where
  "codeUnitCompare a b = (if a < b then - 1 else if a = b then 0 else 1)"


subsection \<open>The aggregation and its effect\<close>

text \<open>
  Lines 117 to 128. A chart point \<^verbatim>\<open>{ date, count }\<close> is the pair of its two fields.
\<close>

definition chartArr ::
  "(string \<Rightarrow> string \<Rightarrow> int) \<Rightarrow> Clock \<Rightarrow> int \<Rightarrow> ToolRow list \<Rightarrow> (string \<times> Count) list" where
  "chartArr localeCompare clock days data =
     (let since = sinceStr clock days;
          filtered = filter (\<lambda>tool. created_at tool \<ge> since) data;
          dateCounts = countDates filtered
      in map (\<lambda>(date, n). (date, n))
           (sortWith (\<lambda>(a, _) (b, _). localeCompare a b) (entries dateCounts)))"

text \<open>
  The \<^verbatim>\<open>try\<close> block of \<^verbatim>\<open>fetchChartData\<close> (lines 113 to 129), then the function with its
  \<^verbatim>\<open>catch\<close> and \<^verbatim>\<open>finally\<close>. \<open>days\<close> is the \<^verbatim>\<open>chartRange\<close> the effect closed over,
  \<open>clock\<close> what the clock answers when the response is there.
\<close>

definition fetchChartData_try ::
  "(string \<Rightarrow> string \<Rightarrow> int) \<Rightarrow> Clock \<Rightarrow> int \<Rightarrow> FetchOutcome \<Rightarrow> string + (string \<times> Count) list" where
  "fetchChartData_try localeCompare clock days outcome =
     (case outcome of
        Threw msg \<Rightarrow> Inl msg
      | NotOk \<Rightarrow> Inl ''Failed to fetch tools for chart''
      | Delivered data \<Rightarrow> Inr (chartArr localeCompare clock days data))"

definition fetchChartData ::
  "(string \<Rightarrow> string \<Rightarrow> int) \<Rightarrow> Clock \<Rightarrow> int \<Rightarrow> FetchOutcome \<Rightarrow> Home \<Rightarrow> Home" where
  "fetchChartData localeCompare clock days outcome s =
     (case fetchChartData_try localeCompare clock days outcome of
        Inr arr \<Rightarrow> s\<lparr>chartData := arr, chartLoading := False\<rparr>
      | Inl msg \<Rightarrow>
          s\<lparr>chartError := Some (if msg = [] then ''Error loading chart data'' else msg),
            chartData := [], chartLoading := False\<rparr>)"

text \<open>The synchronous head of the chart effect (lines 109 and 110).\<close>

definition chartEffect :: "Home \<Rightarrow> Home" where
  "chartEffect s = s\<lparr>chartLoading := True, chartError := None\<rparr>"

text \<open>
  Line 189, the handler of a range button: \<^verbatim>\<open>setChartRange(range.value)\<close>. The buttons are
  rendered only under \<^verbatim>\<open>!chartLoading && !chartError\<close> (line 176). The effect the new
  \<^verbatim>\<open>chartRange\<close> triggers is a \<open>chartEffect\<close>, and the fetch it starts completes later
  as a \<open>fetchChartData\<close> with the range the effect closed over.
\<close>

definition rangeButtonsShown :: "Home \<Rightarrow> bool" where
  "rangeButtonsShown s = (\<not> chartLoading s \<and> (chartError s = None \<or> chartError s = Some []))"

definition onRangeClick :: "int \<Rightarrow> Home \<Rightarrow> Home" where
  "onRangeClick days s = s\<lparr>chartRange := days\<rparr>"

text \<open>
  The window of the specification: the date of a record lies between the day \<open>days\<close>
  before today and today, both as date strings.
\<close>

definition withinWindow :: "Clock \<Rightarrow> int \<Rightarrow> ToolRow \<Rightarrow> bool" where
  "withinWindow clock days tool =
     (sinceStr clock days \<le> dateOf tool \<and> dateOf tool \<le> todayStr clock)"

text \<open>A record created at the given time, and a small collection, for the examples.\<close>

definition toolAt :: "string \<Rightarrow> ToolRow" where
  "toolAt t =
     \<lparr>id' = ''t'', name = ''Tool'', tagline = '''', topics = [], thumbnail_url = '''',
      website = '''', created_at = t, score = None\<rparr>"

definition sampleTools :: "ToolRow list" where
  "sampleTools =
     [toolAt ''2024-01-05T10:00:00Z'', toolAt ''2024-01-03T09:30:00Z'',
      toolAt ''2024-01-02T23:59:59Z'', toolAt ''2024-01-05T11:00:00Z'']"

section \<open>Properties of the table pipeline\<close>

subsection \<open>Page count and page windows\<close>

lemma ceiling_bounds:
  assumes "0 < rows"
  shows "int n \<le> \<lceil>real n / real_of_int rows\<rceil> * rows \<and>
         (\<lceil>real n / real_of_int rows\<rceil> - 1) * rows < int n"
proof -
  let ?x = "real n / real_of_int rows"
  have r: "0 < real_of_int rows" using assms by simp
  have "?x \<le> of_int \<lceil>?x\<rceil>" by (rule le_of_int_ceiling)
  then have "real n \<le> of_int \<lceil>?x\<rceil> * real_of_int rows"
    using r by (simp only: pos_divide_le_eq)
  then have "real_of_int (int n) \<le> real_of_int (\<lceil>?x\<rceil> * rows)" by simp
  then have a: "int n \<le> \<lceil>?x\<rceil> * rows" by (simp only: of_int_le_iff)
  have "of_int \<lceil>?x\<rceil> - 1 < ?x" using ceiling_correct [of ?x] by linarith
  then have "(of_int \<lceil>?x\<rceil> - 1) * real_of_int rows < real n"
    using r by (simp only: pos_less_divide_eq)
  then have "real_of_int ((\<lceil>?x\<rceil> - 1) * rows) < real_of_int (int n)" by simp
  then have b: "(\<lceil>?x\<rceil> - 1) * rows < int n" by (simp only: of_int_less_iff)
  from a b show ?thesis by simp
qed

lemma totalPages_bounds:
  assumes "0 < rows"
  shows "1 \<le> totalPages n rows \<and> int n \<le> totalPages n rows * rows \<and>
         (0 < n \<longrightarrow> (totalPages n rows - 1) * rows < int n)"
proof -
  let ?c = "\<lceil>real n / real_of_int rows\<rceil>"
  have cb: "int n \<le> ?c * rows" "(?c - 1) * rows < int n"
    using ceiling_bounds [OF assms, of n] by simp_all
  have "0 \<le> real n / real_of_int rows" using assms by simp
  then have c0: "0 \<le> ?c" by simp
  show ?thesis
  proof (cases "?c = 0")
    case True
    with cb(1) have "n = 0" by simp
    with True assms show ?thesis by (simp add: totalPages_def)
  next
    case False
    with c0 have c1: "1 \<le> ?c" by linarith
    have tp: "totalPages n rows = ?c" using False by (simp add: totalPages_def Let_def)
    show ?thesis unfolding tp using c1 cb by blast
  qed
qed

lemma totalPages_zero: "totalPages 0 rows = 1"
  by (simp add: totalPages_def)

lemma paginated_take_drop:
  assumes "0 < rows" "1 \<le> pg"
  shows "paginated xs pg rows = take (nat rows) (drop (nat (pg - 1) * nat rows) xs)"
proof -
  let ?from = "(pg - 1) * rows"
  have f0: "0 \<le> ?from" using assms by simp
  have nf: "nat ?from = nat (pg - 1) * nat rows" using assms by (simp add: nat_mult_distrib)
  show ?thesis
  proof (cases "?from \<le> int (length xs)")
    case True
    then show ?thesis using assms f0 nf
      by (fastforce simp add: paginated_def slice_def Let_def min_def)
  next
    case False
    then show ?thesis using assms f0 nf
      by (simp add: paginated_def slice_def Let_def min_def)
  qed
qed

lemma concat_pages:
  "concat (map (\<lambda>i. take m (drop (i * m) xs)) [0..<k]) = take (k * m) xs"
proof (induction k)
  case 0
  then show ?case by simp
next
  case (Suc k)
  have "take (Suc k * m) xs = take (k * m + m) xs" by (simp add: add.commute)
  also have "\<dots> = take (k * m) xs @ take m (drop (k * m) xs)" by (rule take_add)
  finally show ?case using Suc by simp
qed

lemma upto_shift: "[1..int k] = map (\<lambda>i. int i + 1) [0..<k]"
proof (induction k)
  case 0
  then show ?case by simp
next
  case (Suc k)
  have "[1..int (Suc k)] = [1..int k] @ [int k + 1]"
    using upto_rec2 [of 1 "int (Suc k)"] by (simp add: add.commute)
  then show ?case using Suc by simp
qed

section \<open>Properties of the chart pipeline\<close>

subsection \<open>Sorting, entries and the counting loop\<close>

lemma mset_insertWith: "mset (insertWith cmp x ys) = add_mset x (mset ys)"
  by (induction ys) simp_all

lemma mset_sortWith: "mset (sortWith cmp xs) = mset xs"
  by (induction xs) (simp_all add: sortWith_def mset_insertWith)

lemma mset_entries: "mset (entries obj) = mset obj"
  by (simp add: entries_def)

lemma countDates_snoc: "countDates (fs @ [t]) = bump (countDates fs) (dateOf t)"
  by (simp add: countDates_def)

lemma keys_bump:
  "set (map fst (bump m k)) =
     (if k = ''__proto__'' then set (map fst m) else insert k (set (map fst m)))"
proof -
  have "set (map fst (AList.update k v m)) = insert k (set (map fst m))" for v
    by (auto simp add: update_keys)
  then show ?thesis by (simp add: bump_def)
qed

lemma distinct_bump: "distinct (map fst m) \<Longrightarrow> distinct (map fst (bump m k))"
  by (simp add: bump_def distinct_update)

lemma keys_countDates: "set (map fst (countDates fs)) = dateOf ` set fs - {''__proto__''}"
proof (induction fs rule: rev_induct)
  case Nil
  then show ?case by (simp add: countDates_def)
next
  case (snoc t fs)
  then show ?case unfolding countDates_snoc keys_bump by auto
qed

lemma distinct_countDates: "distinct (map fst (countDates fs))"
proof (induction fs rule: rev_induct)
  case Nil
  then show ?case by (simp add: countDates_def)
next
  case (snoc t fs)
  then show ?case unfolding countDates_snoc by (rule distinct_bump)
qed

lemma map_of_bump:
  "map_of (bump m k) d =
     (if d = k \<and> k \<noteq> ''__proto__'' then Some (readOrZeroPlusOne m k) else map_of m d)"
  by (simp add: bump_def update_conv')

lemma inheritedText_not_empty: "inheritedText member \<noteq> []"
  by (simp add: inheritedText_def)

text \<open>What the counting loop leaves under a date, in full.\<close>

lemma map_of_countDates:
  "map_of (countDates fs) d =
     (let c = length (filter (\<lambda>tool. dateOf tool = d) fs) in
      if c = 0 \<or> d = ''__proto__'' then None
      else if d \<in> set inheritedMembers then Some (Text (inheritedText d @ replicate c CHR ''1''))
      else Some (Number c))"
proof (induction fs rule: rev_induct)
  case Nil
  then show ?case by (simp add: countDates_def)
next
  case (snoc t fs)
  show ?case
  proof (cases "d = dateOf t")
    case True
    with snoc show ?thesis
      by (auto simp add: countDates_snoc map_of_bump readOrZeroPlusOne_def Let_def
          inheritedText_not_empty replicate_append_same)
  next
    case False
    with snoc show ?thesis by (simp add: countDates_snoc map_of_bump Let_def)
  qed
qed

lemma sum_update:
  "sumOfNumbers (AList.update k v m) +
     (case map_of m k of None \<Rightarrow> 0 | Some c \<Rightarrow> (case numeric c of Some n \<Rightarrow> n | None \<Rightarrow> 0)) =
   sumOfNumbers m + (case numeric v of Some n \<Rightarrow> n | None \<Rightarrow> 0)"
  by (induction m) (auto simp add: sumOfNumbers_def)

lemma sum_bump_countDates:
  "sumOfNumbers (bump (countDates fs) k) =
     sumOfNumbers (countDates fs) + (if k \<in> set inheritedMembers then 0 else 1)"
proof (cases "k = ''__proto__''")
  case True
  then show ?thesis by (simp add: bump_def inheritedMembers_def)
next
  case False
  let ?m = "countDates fs"
  let ?c = "length (filter (\<lambda>tool. dateOf tool = k) fs)"
  have m: "map_of ?m k =
      (if ?c = 0 then None
       else if k \<in> set inheritedMembers then Some (Text (inheritedText k @ replicate ?c CHR ''1''))
       else Some (Number ?c))"
    using False map_of_countDates [of fs k] by (simp add: Let_def)
  have b: "bump ?m k = AList.update k (readOrZeroPlusOne ?m k) ?m"
    using False by (simp add: bump_def)
  show ?thesis
    using sum_update [of k "readOrZeroPlusOne ?m k" ?m]
    unfolding b by (simp add: m readOrZeroPlusOne_def inheritedText_not_empty split: if_splits)
qed

lemma sum_countDates:
  "sumOfNumbers (countDates fs) =
     length (filter (\<lambda>tool. dateOf tool \<notin> set inheritedMembers) fs)"
proof (induction fs rule: rev_induct)
  case Nil
  then show ?case by (simp add: countDates_def sumOfNumbers_def)
next
  case (snoc t fs)
  then show ?case by (simp add: countDates_snoc sum_bump_countDates)
qed

lemma mset_chartArr:
  "mset (chartArr cmp clock days data) =
   mset (countDates (filter (\<lambda>tool. sinceStr clock days \<le> created_at tool) data))"
  by (simp add: chartArr_def mset_sortWith mset_entries)

lemma set_chartArr:
  "set (chartArr cmp clock days data) =
   set (countDates (filter (\<lambda>tool. sinceStr clock days \<le> created_at tool) data))"
  using mset_chartArr [of cmp clock days data] by (metis set_mset_mset)

lemma keys_chartArr:
  "fst ` set (chartArr cmp clock days data) =
   dateOf ` {tool \<in> set data. sinceStr clock days \<le> created_at tool} - {''__proto__''}"
  using keys_countDates [of "filter (\<lambda>tool. sinceStr clock days \<le> created_at tool) data"]
  by (simp add: set_chartArr)

lemma distinct_chartArr: "distinct (map fst (chartArr cmp clock days data))"
proof -
  have "mset (map fst (chartArr cmp clock days data)) =
        mset (map fst (countDates (filter (\<lambda>tool. sinceStr clock days \<le> created_at tool) data)))"
    by (simp add: mset_chartArr)
  then show ?thesis using distinct_countDates by (metis mset_eq_imp_distinct_iff)
qed

lemma sumOfNumbers_mset: "mset xs = mset ys \<Longrightarrow> sumOfNumbers xs = sumOfNumbers ys"
proof -
  assume "mset xs = mset ys"
  then have "mset (map (\<lambda>p. case numeric (snd p) of Some n \<Rightarrow> n | None \<Rightarrow> 0) xs) =
             mset (map (\<lambda>p. case numeric (snd p) of Some n \<Rightarrow> n | None \<Rightarrow> 0) ys)"
    by simp
  then show ?thesis unfolding sumOfNumbers_def by (metis sum_mset_sum_list)
qed

lemma sum_chartArr:
  "sumOfNumbers (chartArr cmp clock days data) =
   length (filter (\<lambda>tool. sinceStr clock days \<le> created_at tool \<and>
                         dateOf tool \<notin> set inheritedMembers) data)"
proof -
  have "sumOfNumbers (chartArr cmp clock days data) =
      sumOfNumbers (countDates (filter (\<lambda>tool. sinceStr clock days \<le> created_at tool) data))"
    by (rule sumOfNumbers_mset) (rule mset_chartArr)
  then show ?thesis by (simp add: sum_countDates conj_commute)
qed

text \<open>
  What the series holds under a date: nothing when no record of that date passes the
  filter, and nothing under \<^verbatim>\<open>__proto__\<close>; a string under any other inherited name; the
  number of the records of that date that pass the filter otherwise.
\<close>

lemma bucket_counts:
  "map_of (chartArr cmp clock days data) d =
     (let c = length (filter (\<lambda>tool. sinceStr clock days \<le> created_at tool \<and> dateOf tool = d) data) in
      if c = 0 \<or> d = ''__proto__'' then None
      else if d \<in> set inheritedMembers then Some (Text (inheritedText d @ replicate c CHR ''1''))
      else Some (Number c))"
proof -
  let ?fs = "filter (\<lambda>tool. sinceStr clock days \<le> created_at tool) data"
  have "map_of (chartArr cmp clock days data) = map_of (countDates ?fs)"
    using distinct_chartArr [of cmp clock days data] distinct_countDates [of ?fs]
      set_chartArr [of cmp clock days data]
    by (intro map_of_inject_set [THEN iffD2]) simp_all
  moreover have "filter (\<lambda>tool. dateOf tool = d) ?fs =
      filter (\<lambda>tool. sinceStr clock days \<le> created_at tool \<and> dateOf tool = d) data"
    by (simp add: conj_commute)
  ultimately show ?thesis using map_of_countDates [of ?fs d] by simp
qed

lemma lex_prefix:
  fixes s k :: "'a::linorder list"
  shows "s \<le> k @ rest \<Longrightarrow> length s \<le> length k \<Longrightarrow> s \<le> k"
proof (induction s arbitrary: k)
  case Nil
  then show ?case by simp
next
  case (Cons a s)
  then obtain b k' where k: "k = b # k'" by (cases k) auto
  with Cons show ?case by auto
qed

lemma created_at_split:
  "created_at tool = dateOf tool @ dropWhile (\<lambda>c. c \<noteq> CHR ''T'') (created_at tool)"
  by (simp add: dateOf_def)

lemma since_le_dateOf:
  assumes "since \<le> created_at tool" "length since \<le> length (dateOf tool)"
  shows "since \<le> dateOf tool"
  using assms created_at_split [of tool] lex_prefix [of since "dateOf tool"] by metis








lemma dateOf_le_created_at: "dateOf tool \<le> created_at tool"
proof -
  have "xs \<le> xs @ ys" for xs ys :: string by (induction xs) simp_all
  then show ?thesis using created_at_split [of tool] by metis
qed

lemma chartArr_empty: "chartArr cmp clock days [] = []"
  by (simp add: chartArr_def countDates_def entries_def sortWith_def)

text \<open>Once a chart cycle has started or has failed, the range buttons are not rendered.\<close>

lemma range_buttons_hidden:
  "\<not> rangeButtonsShown (chartEffect s) \<and>
   \<not> rangeButtonsShown (fetchChartData cmp clock days NotOk s) \<and>
   \<not> rangeButtonsShown (fetchChartData cmp clock days (Threw m) s)"
  by (simp add: rangeButtonsShown_def fetchChartData_def fetchChartData_try_def chartEffect_def)

subsection \<open>The example collection at noon of 2024-01-10, UTC\<close>

lemma sample_series:
  "chartArr codeUnitCompare (utcNoon 19732) 7 sampleTools = [(''2024-01-03'', Number 1), (''2024-01-05'', Number 2)]"
  by code_simp

lemma sample_since: "sinceStr (utcNoon 19732) 7 = ''2024-01-03''"
  by code_simp

text \<open>
  The date of \<^verbatim>\<open>sinceStr\<close> is the one of UTC: at 08:00 of 2024-01-10 in a zone ten hours
  ahead, seven local days back is still 2024-01-02 there.
\<close>

lemma since_in_a_zone_ahead:
  "sinceStr \<lparr>localDay = 19732, minuteOfDay = 480, utcOffset = (\<lambda>_. 600)\<rparr> 7 = ''2024-01-02''"
  by code_simp

text \<open>
  Twenty-five records in pages of ten: the third page holds the last five. Records of the
  first three days of January, seen on the tenth with a window of seven days: the window
  starts on the third.
\<close>

lemma page_three_of_twenty_five:
  "paginated ''abcdefghijklmnopqrstuvwxy'' 3 10 = ''uvwxy'' \<and>
   totalPages (length ''abcdefghijklmnopqrstuvwxy'') 10 = 3"
  by (simp add: paginated_def slice_def totalPages_def)

lemma first_days_of_january:
  "chartArr codeUnitCompare (utcNoon 19732) 7
     [toolAt ''2024-01-01'', toolAt ''2024-01-01'', toolAt ''2024-01-02'',
      toolAt ''2024-01-03'', toolAt ''2024-01-03'', toolAt ''2024-01-03''] =
   [(''2024-01-03'', Number 3)]"
  by code_simp

text \<open>
  Dates that name an inherited member: \<^verbatim>\<open>constructor\<close> twice and \<^verbatim>\<open>toString\<close> once get
  strings, the record dated \<^verbatim>\<open>__proto__\<close> leaves no point, and the two records of
  2024-01-05 are counted.
\<close>

lemma inherited_names_in_the_counts:
  "chartArr codeUnitCompare (utcNoon 19732) 7
     [toolAt ''constructor'', toolAt ''2024-01-05'', toolAt ''__proto__'', toolAt ''constructor'',
      toolAt ''toString'', toolAt ''2024-01-05T10:00:00Z''] =
   [(''2024-01-05'', Number 2),
    (''constructor'', Text ''function Object() { [native code] }11''),
    (''toString'', Text ''function toString() { [native code] }1'')]"
  by code_simp

text \<open>The order of the series is the one of the collation: reversed, it descends.\<close>

lemma series_follows_the_collation:
  "chartArr (\<lambda>a b. codeUnitCompare b a) (utcNoon 19732) 7 sampleTools =
   [(''2024-01-05'', Number 2), (''2024-01-03'', Number 1)]"
  by code_simp

section \<open>Invariants of the pagination controls\<close>

lemma totalPagesOf_positive: "0 < rowsPerPage s \<Longrightarrow> 1 \<le> totalPagesOf s"
  using totalPages_bounds [of "rowsPerPage s" "total s"] by (simp add: totalPagesOf_def)

lemma onClick_keeps:
  assumes "1 \<le> page s" "0 < rowsPerPage s"
  shows "1 \<le> page (onClick b s) \<and> rowsPerPage (onClick b s) = rowsPerPage s"
  using assms totalPagesOf_positive [of s] by (cases b) simp_all

lemma tableStep_keeps:
  assumes "1 \<le> page s \<and> 0 < rowsPerPage s" "offered e"
  shows "1 \<le> page (tableStep e s) \<and> 0 < rowsPerPage (tableStep e s)"
proof (cases e)
  case (Pressed b)
  then show ?thesis using assms onClick_keeps [of s b]
    by (simp add: rerun_def tableEffect_def press_def)
next
  case (RowsSelected val)
  then show ?thesis using assms
    by (auto simp add: rerun_def tableEffect_def onValueChange_def ROWS_OPTIONS_def)
next
  case (FetchCompleted pg rows outcome)
  then show ?thesis using assms
    by (simp add: fetchData_def split: sum.splits prod.splits)
qed

lemma tableTrace_keeps:
  assumes "1 \<le> page s \<and> 0 < rowsPerPage s" "list_all offered evs"
  shows "list_all (\<lambda>s'. 1 \<le> page s' \<and> 0 < rowsPerPage s') (tableTrace evs s)"
  using assms
proof (induction evs arbitrary: s)
  case Nil
  then show ?case by simp
next
  case (Cons e evs)
  then have "1 \<le> page (tableStep e s) \<and> 0 < rowsPerPage (tableStep e s)"
    using tableStep_keeps [of s e] by simp
  with Cons show ?case by simp
qed

section \<open>The claims\<close>

subsection \<open>C1: pagination totality\<close>

text \<open>
  C1. For every list of records and every page size \<open>rows > 0\<close>, the pages of indices 1 to
  \<open>totalPages\<close>, each the slice from \<open>(pg - 1) * rows\<close> to that plus \<open>rows\<close>, concatenate
  to the list itself; no page is longer than \<open>rows\<close>, and every page before the last has
  exactly \<open>rows\<close> records.
\<close>

theorem pagination_totality:
  assumes "0 < rows"
  shows "concat (map (\<lambda>pg. paginated records pg rows) [1..totalPages (length records) rows]) = records \<and>
     (\<forall>pg \<in> {1..totalPages (length records) rows}. length (paginated records pg rows) \<le> nat rows) \<and>
     (\<forall>pg \<in> {1..<totalPages (length records) rows}. length (paginated records pg rows) = nat rows)"
proof -
  let ?n = "length records"
  let ?tp = "totalPages ?n rows"
  let ?m = "nat rows"
  have tp1: "1 \<le> ?tp" and cover: "int ?n \<le> ?tp * rows"
    and full: "0 < ?n \<Longrightarrow> (?tp - 1) * rows < int ?n"
    using totalPages_bounds [OF assms, of ?n] by simp_all
  have page_eq: "paginated records (int i + 1) rows = take ?m (drop (i * ?m) records)" for i
    using paginated_take_drop [OF assms, of "int i + 1" records] by simp
  have "[1..?tp] = map (\<lambda>i. int i + 1) [0..<nat ?tp]"
    using upto_shift [of "nat ?tp"] tp1 by simp
  then have "concat (map (\<lambda>pg. paginated records pg rows) [1..?tp]) =
             concat (map (\<lambda>i. take ?m (drop (i * ?m) records)) [0..<nat ?tp])"
    by (simp add: comp_def page_eq)
  also have "\<dots> = take (nat ?tp * ?m) records" by (rule concat_pages)
  also have "\<dots> = records"
  proof -
    have "nat (?tp * rows) = nat ?tp * ?m" using tp1 assms by (simp add: nat_mult_distrib)
    with cover have "?n \<le> nat ?tp * ?m" by linarith
    then show ?thesis by simp
  qed
  finally have whole: "concat (map (\<lambda>pg. paginated records pg rows) [1..?tp]) = records" .
  have short: "length (paginated records pg rows) \<le> ?m" if "pg \<in> {1..?tp}" for pg
    using that paginated_take_drop [OF assms, of pg records] by simp
  have exact: "length (paginated records pg rows) = ?m" if "pg \<in> {1..<?tp}" for pg
  proof -
    from that have pg: "1 \<le> pg" "pg \<le> ?tp - 1" by simp_all
    have "0 < ?n"
    proof (rule ccontr)
      assume "\<not> 0 < ?n"
      then have "?tp = 1" by (simp add: totalPages_zero)
      with pg show False by simp
    qed
    then have lt: "(?tp - 1) * rows < int ?n" by (rule full)
    have "pg * rows \<le> (?tp - 1) * rows" using pg assms by (simp add: mult_right_mono)
    with lt have "pg * rows \<le> int ?n" by linarith
    moreover have "pg * rows = int (nat (pg - 1) * ?m + ?m)"
      using pg assms by (simp add: nat_mult_distrib algebra_simps)
    ultimately have "nat (pg - 1) * ?m + ?m \<le> ?n" by linarith
    then show ?thesis using paginated_take_drop [OF assms pg(1), of records] by simp
  qed
  from whole short exact show ?thesis by blast
qed

text \<open>Five records in pages of two: the pages are of 2, 2 and 1 records.\<close>

theorem pagination_totality_witness:
  "(0::int) < 2 \<and> totalPages (length ''abcde'') 2 = 3 \<and>
   map (\<lambda>pg. paginated ''abcde'' pg 2) [1, 2, 3] = [''ab'', ''cd'', ''e''] \<and>
   concat (map (\<lambda>pg. paginated ''abcde'' pg 2) [1..totalPages (length ''abcde'') 2]) = ''abcde''"
  using pagination_totality [of 2 "''abcde''"]
  by (simp add: totalPages_def paginated_def slice_def upto.simps)

subsection \<open>C2: the dates of the series and the window\<close>

text \<open>
  The filter of line 120 has a lower bound only. A record dated after today passes it, and
  its date is a key of the series: at noon of 2024-01-10 in the UTC zone, with a window of
  7 days, the series of a single record created on 2999-01-01 has the key 2999-01-01,
  which is not \<open>\<le>\<close> today.
\<close>

theorem aggregation_filter_counterexample:
  "chartArr codeUnitCompare (utcNoon 19732) 7 [toolAt ''2999-01-01T00:00:00Z''] = [(''2999-01-01'', Number 1)] \<and>
   todayStr (utcNoon 19732) = ''2024-01-10'' \<and> \<not> ''2999-01-01'' \<le> todayStr (utcNoon 19732)"
  by code_simp

text \<open>
  C2, as the code has it. Every key of the series is the date (the text before the first
  \<^verbatim>\<open>T\<close>) of a record whose \<^verbatim>\<open>created_at\<close> is \<open>\<ge>\<close> \<^verbatim>\<open>sinceStr\<close>, the UTC date of the moment
  \<open>days\<close> days before now, compared by code unit; the key itself is \<open>\<ge>\<close> that string
  whenever it is at least as long, as a date of the form YYYY-MM-DD is. Nothing bounds a
  key by today.
\<close>

theorem aggregation_filter_lower_bound:
  "\<forall>(d, n) \<in> set (chartArr cmp clock days data).
     \<exists>tool \<in> set data. d = dateOf tool \<and> sinceStr clock days \<le> created_at tool \<and>
       (length (sinceStr clock days) \<le> length d \<longrightarrow> sinceStr clock days \<le> d)"
proof -
  have "\<exists>tool \<in> set data. d = dateOf tool \<and> sinceStr clock days \<le> created_at tool \<and>
       (length (sinceStr clock days) \<le> length d \<longrightarrow> sinceStr clock days \<le> d)"
    if "(d, n) \<in> set (chartArr cmp clock days data)" for d n
  proof -
    from that have "d \<in> fst ` set (chartArr cmp clock days data)" by force
    then obtain tool where t: "tool \<in> set data" "sinceStr clock days \<le> created_at tool"
      "d = dateOf tool" unfolding keys_chartArr by auto
    then show ?thesis using since_le_dateOf [of "sinceStr clock days" tool] by blast
  qed
  then show ?thesis by blast
qed

text \<open>The example collection: both keys are on or after 2024-01-03.\<close>

theorem aggregation_filter_lower_bound_witness:
  "chartArr codeUnitCompare (utcNoon 19732) 7 sampleTools = [(''2024-01-03'', Number 1), (''2024-01-05'', Number 2)] \<and>
   sinceStr (utcNoon 19732) 7 = ''2024-01-03'' \<and>
   sinceStr (utcNoon 19732) 7 \<le> ''2024-01-03'' \<and> sinceStr (utcNoon 19732) 7 \<le> ''2024-01-05''"
  using aggregation_filter_lower_bound [of codeUnitCompare "utcNoon 19732" 7 sampleTools]
  unfolding sample_series sample_since
  by simp

subsection \<open>C3: the sum of the counts\<close>

text \<open>
  The record dated 2999-01-01 is counted, and does not lie in the window from 2024-01-03
  to 2024-01-10: the counts sum to 1, the window holds no record.
\<close>

theorem aggregation_completeness_counterexample:
  "chartArr codeUnitCompare (utcNoon 19732) 7 [toolAt ''2999-01-01T00:00:00Z''] =
     [(''2999-01-01'', Number 1)] \<and>
   sumOfNumbers (chartArr codeUnitCompare (utcNoon 19732) 7 [toolAt ''2999-01-01T00:00:00Z'']) = 1 \<and>
   length (filter (withinWindow (utcNoon 19732) 7) [toolAt ''2999-01-01T00:00:00Z'']) = 0"
  by code_simp

text \<open>
  C3, as the code has it. The counts that are numbers sum to the number of records whose
  \<^verbatim>\<open>created_at\<close> is \<open>\<ge>\<close> \<^verbatim>\<open>sinceStr\<close>, the UTC date of the moment \<open>days\<close> days before now, and
  whose date does not name a member inherited from \<^verbatim>\<open>Object.prototype\<close>. Where no record
  that passes the filter has such a date, every count is a number, the counts sum to the
  number of records that pass the filter, and the records of the window, which are among
  them, are at most that many.
\<close>

theorem aggregation_completeness:
  "sumOfNumbers (chartArr cmp clock days data) =
     length (filter (\<lambda>tool. sinceStr clock days \<le> created_at tool \<and>
                           dateOf tool \<notin> set inheritedMembers) data) \<and>
   ((\<forall>tool \<in> set data. sinceStr clock days \<le> created_at tool \<longrightarrow>
        dateOf tool \<notin> set inheritedMembers) \<longrightarrow>
      (\<forall>(d, c) \<in> set (chartArr cmp clock days data). \<exists>n. c = Number n) \<and>
      sumOfNumbers (chartArr cmp clock days data) =
        length (filter (\<lambda>tool. sinceStr clock days \<le> created_at tool) data) \<and>
      length (filter (withinWindow clock days) data) \<le>
        sumOfNumbers (chartArr cmp clock days data))"
proof -
  let ?series = "chartArr cmp clock days data"
  let ?passes = "\<lambda>tool. sinceStr clock days \<le> created_at tool"
  have total: "sumOfNumbers ?series =
      length (filter (\<lambda>tool. ?passes tool \<and> dateOf tool \<notin> set inheritedMembers) data)"
    by (rule sum_chartArr)
  have plain_case: "(\<forall>(d, c) \<in> set ?series. \<exists>n. c = Number n) \<and>
      sumOfNumbers ?series = length (filter ?passes data) \<and>
      length (filter (withinWindow clock days) data) \<le> sumOfNumbers ?series"
    if plain: "\<forall>tool \<in> set data. ?passes tool \<longrightarrow> dateOf tool \<notin> set inheritedMembers"
  proof -
    have numbers: "\<exists>n. c = Number n" if "(d, c) \<in> set ?series" for d c
    proof -
      from that have "d \<in> fst ` set ?series" by force
      then have "d \<notin> set inheritedMembers" unfolding keys_chartArr using plain by auto
      moreover from that have "map_of ?series d = Some c"
        using distinct_chartArr [of cmp clock days data] by simp
      ultimately show ?thesis unfolding bucket_counts by (auto simp add: Let_def split: if_splits)
    qed
    have same: "filter (\<lambda>tool. ?passes tool \<and> dateOf tool \<notin> set inheritedMembers) data =
        filter ?passes data"
      using plain by (intro filter_cong) auto
    have "withinWindow clock days tool \<Longrightarrow> ?passes tool" for tool
      using dateOf_le_created_at [of tool] by (auto simp add: withinWindow_def)
    then have "length (filter (withinWindow clock days) data) \<le> length (filter ?passes data)"
      by (induction data) auto
    with numbers total same show ?thesis by auto
  qed
  with total show ?thesis by blast
qed

text \<open>The example collection: three of its four records are counted.\<close>

theorem aggregation_completeness_witness:
  "list_all (\<lambda>tool. dateOf tool \<notin> set inheritedMembers) sampleTools \<and>
   sumOfNumbers (chartArr codeUnitCompare (utcNoon 19732) 7 sampleTools) = 3 \<and>
   length (filter (\<lambda>tool. sinceStr (utcNoon 19732) 7 \<le> created_at tool) sampleTools) = 3"
proof -
  have p: "list_all (\<lambda>tool. dateOf tool \<notin> set inheritedMembers) sampleTools" by code_simp
  then have "\<forall>tool \<in> set sampleTools. sinceStr (utcNoon 19732) 7 \<le> created_at tool \<longrightarrow>
      dateOf tool \<notin> set inheritedMembers"
    by (simp add: list_all_iff)
  with aggregation_completeness [of codeUnitCompare "utcNoon 19732" 7 sampleTools]
  have "sumOfNumbers (chartArr codeUnitCompare (utcNoon 19732) 7 sampleTools) =
      length (filter (\<lambda>tool. sinceStr (utcNoon 19732) 7 \<le> created_at tool) sampleTools)"
    by blast
  moreover have "sumOfNumbers (chartArr codeUnitCompare (utcNoon 19732) 7 sampleTools) = 3"
    by (simp add: sample_series sumOfNumbers_def)
  ultimately show ?thesis using p by simp
qed

subsection \<open>C4: the order of the series\<close>




subsection \<open>C5: score badge\<close>

text \<open>
  C5. A missing score shows the badge "Not tried yet", a score of 8 or more "Great!", a
  score from 6.5 up to but excluding 8 "Pretty good", and a score below 6.5 "meh..".
\<close>

theorem score_banding:
  "scoreBadge None = NotTriedYet \<and>
   (8 \<le> x \<longrightarrow> scoreBadge (Some x) = Great) \<and>
   (6.5 \<le> x \<and> x < 8 \<longrightarrow> scoreBadge (Some x) = PrettyGood) \<and>
   (x < 6.5 \<longrightarrow> scoreBadge (Some x) = Meh)"
  by (simp add: scoreBadge_def)

text \<open>The boundary values 8.0, 7.999, 6.5 and 6.49.\<close>

theorem score_banding_witness:
  "scoreBadge (Some 8.0) = Great \<and> scoreBadge (Some 7.999) = PrettyGood \<and>
   scoreBadge (Some 6.5) = PrettyGood \<and> scoreBadge (Some 6.49) = Meh \<and>
   scoreBadge None = NotTriedYet \<and>
   map (\<lambda>sc. badgeLabel (scoreBadge sc)) [None, Some 8.0, Some 7.999, Some 6.5, Some 6.49] =
     [''Not tried yet'', ''Great!'', ''Pretty good'', ''Pretty good'', ''meh..'']"
  using score_banding [of "8.0"] score_banding [of "7.999"] score_banding [of "6.5"]
    score_banding [of "6.49"]
  by simp

subsection \<open>C6: responses that arrive out of order\<close>

text \<open>
  Nothing in \<^verbatim>\<open>fetchChartData\<close> ties a completion to the latest request. A click on
  "Last 7 days" lands on the buttons of the first render, which the initial state shows;
  the effect of the first render, closed over 90, and the effect of the render after the
  click, closed over 7, run their heads and start their fetches in this order. The
  response for 7 arrives first, the response for 90 second. The chart is then labelled
  with 7 days and shows the record of 2023-12-15, which the request for 7 days left out.
\<close>

theorem stale_response_guard_counterexample:
  "rangeButtonsShown initialHome \<and> chartRange initialHome = 90 \<and>
   chartRange (fetchChartData codeUnitCompare (utcNoon 19732) 90 (Delivered [toolAt ''2023-12-15T08:00:00Z''])
     (fetchChartData codeUnitCompare (utcNoon 19732) 7 (Delivered [toolAt ''2023-12-15T08:00:00Z''])
       (chartEffect (chartEffect (onRangeClick 7 initialHome))))) = 7 \<and>
   chartData (fetchChartData codeUnitCompare (utcNoon 19732) 90 (Delivered [toolAt ''2023-12-15T08:00:00Z''])
     (fetchChartData codeUnitCompare (utcNoon 19732) 7 (Delivered [toolAt ''2023-12-15T08:00:00Z''])
       (chartEffect (chartEffect (onRangeClick 7 initialHome))))) = [(''2023-12-15'', Number 1)] \<and>
   chartArr codeUnitCompare (utcNoon 19732) 7 [toolAt ''2023-12-15T08:00:00Z''] = [] \<and>
   map snd TIME_RANGES = [90, 30, 7]"
  by code_simp

text \<open>
  C6, as the code has it. When the cycle for \<open>r1\<close> is started before the cycle for \<open>r2\<close>
  and its response arrives after the other's, the chart data are the result of the earlier
  request (its series, or no points when it failed) while \<^verbatim>\<open>chartRange\<close> is \<open>r2\<close>: the
  response that arrives last stands. What the code does have is the condition on the
  buttons: once the head of an effect has run, they are not rendered.
\<close>

theorem stale_chart_response_wins:
  "(let s' = fetchChartData cmp t1 r1 o1
        (fetchChartData cmp t2 r2 o2 (chartEffect (chartEffect (onRangeClick r2 s)))) in
      chartRange s' = r2 \<and> \<not> chartLoading s' \<and>
      chartData s' = (case o1 of Delivered data \<Rightarrow> chartArr cmp t1 r1 data | _ \<Rightarrow> [])) \<and>
   \<not> rangeButtonsShown (chartEffect s)"
  by (simp add: fetchChartData_def fetchChartData_try_def chartEffect_def onRangeClick_def Let_def
      rangeButtonsShown_def split: FetchOutcome.splits)

text \<open>The example collection, asked for 90 days and then for 7.\<close>

theorem stale_chart_response_wins_witness:
  "chartData (fetchChartData codeUnitCompare (utcNoon 19732) 90 (Delivered sampleTools)
     (fetchChartData codeUnitCompare (utcNoon 19732) 7 (Delivered sampleTools)
       (chartEffect (chartEffect (onRangeClick 7 initialHome))))) =
   chartArr codeUnitCompare (utcNoon 19732) 90 sampleTools \<and>
   chartRange (fetchChartData codeUnitCompare (utcNoon 19732) 90 (Delivered sampleTools)
     (fetchChartData codeUnitCompare (utcNoon 19732) 7 (Delivered sampleTools)
       (chartEffect (chartEffect (onRangeClick 7 initialHome))))) = 7"
  using stale_chart_response_wins [of codeUnitCompare "utcNoon 19732" 90 "Delivered sampleTools" "utcNoon 19732" 7
      "Delivered sampleTools" initialHome]
  by (simp add: Let_def)

subsection \<open>C7: at least one page\<close>

text \<open>
  C7. For every collection and every page size \<open>rows > 0\<close> the page count is at least 1.
  The empty collection gives no rows, a total of 0 and a page count of 1 in the table, and
  a series without points in the chart.
\<close>

theorem pagination_floor:
  "(0 < rows \<longrightarrow> 1 \<le> totalPages (length (records :: ToolRow list)) rows) \<and>
   tools (tableCycle (Delivered []) s) = [] \<and>
   total (tableCycle (Delivered []) s) = 0 \<and>
   totalPagesOf (tableCycle (Delivered []) s) = 1 \<and>
   chartArr cmp clock days [] = [] \<and>
   chartData (fetchChartData cmp clock days (Delivered []) (chartEffect s)) = []"
proof -
  have "0 < rows \<Longrightarrow> 1 \<le> totalPages (length records) rows"
    using totalPages_bounds [of rows "length records"] by simp
  moreover have "tools (tableCycle (Delivered []) s) = []"
    by (simp add: tableCycle_def fetchData_def fetchData_try_def paginated_def slice_def)
  moreover have "total (tableCycle (Delivered []) s) = 0"
    by (simp add: tableCycle_def fetchData_def fetchData_try_def)
  moreover have "totalPagesOf (tableCycle (Delivered []) s) = 1"
    by (simp add: totalPagesOf_def tableCycle_def fetchData_def fetchData_try_def totalPages_zero)
  moreover have "chartData (fetchChartData cmp clock days (Delivered []) (chartEffect s)) = []"
    by (simp add: fetchChartData_def fetchChartData_try_def chartArr_empty)
  ultimately show ?thesis by (simp add: chartArr_empty)
qed

text \<open>Pages of ten: one page for no record, three for twenty-five.\<close>

theorem pagination_floor_witness:
  "(0::int) < 10 \<and> 1 \<le> totalPages (length ([] :: ToolRow list)) 10 \<and>
   totalPages (length (replicate 25 (toolAt ''2024-01-05T10:00:00Z''))) 10 = 3 \<and>
   totalPagesOf (tableCycle (Delivered []) initialHome) = 1"
proof -
  have h: "(0::int) < 10" by simp
  have "totalPages (length (replicate 25 (toolAt ''2024-01-05T10:00:00Z''))) 10 = 3"
    by (simp add: totalPages_def)
  with h pagination_floor [of 10 "[]" initialHome codeUnitCompare "utcNoon 19732" 90]
  show ?thesis by blast
qed

subsection \<open>C8: a fetch of the table that fails\<close>

text \<open>
  The message of a response that is not ok is the fixed text of line 89. It does not hold
  the endpoint \<^verbatim>\<open>/api/similar-tools\<close>, nor its last segment. The message of an exception
  is shown as the runtime worded it: "Load failed", say, which does not even hold "tools".
  And the state can hold an error beside rows: of 25 records in pages of ten, "next" is
  pressed twice, the fetch for page 2 fails and the fetch for page 3 then delivers. The
  error of the first stays, with the five rows of the second.
\<close>

theorem table_fetch_failure_counterexample:
  "tableError (tableCycle NotOk initialHome) = Some ''Failed to fetch tools'' \<and>
   \<not> sublist endpoint ''Failed to fetch tools'' \<and>
   \<not> sublist ''similar-tools'' ''Failed to fetch tools'' \<and>
   tableError (tableCycle (Threw ''Load failed'') initialHome) = Some ''Load failed'' \<and>
   \<not> sublist ''tools'' ''Load failed'' \<and>
   tableError (last (tableTrace
     [FetchCompleted 1 10 (Delivered (replicate 25 (toolAt ''2024-01-05''))),
      Pressed NextPage, Pressed NextPage, FetchCompleted 2 10 NotOk,
      FetchCompleted 3 10 (Delivered (replicate 25 (toolAt ''2024-01-05'')))] initialHome)) =
     Some ''Failed to fetch tools'' \<and>
   tools (last (tableTrace
     [FetchCompleted 1 10 (Delivered (replicate 25 (toolAt ''2024-01-05''))),
      Pressed NextPage, Pressed NextPage, FetchCompleted 2 10 NotOk,
      FetchCompleted 3 10 (Delivered (replicate 25 (toolAt ''2024-01-05'')))] initialHome)) =
     replicate 5 (toolAt ''2024-01-05'') \<and>
   loading (last (tableTrace
     [FetchCompleted 1 10 (Delivered (replicate 25 (toolAt ''2024-01-05''))),
      Pressed NextPage, Pressed NextPage, FetchCompleted 2 10 NotOk,
      FetchCompleted 3 10 (Delivered (replicate 25 (toolAt ''2024-01-05'')))] initialHome)) = False"
  by code_simp

text \<open>
  C8, as the code has it. A fetch of the table that fails, in whatever state its response
  finds the component, is caught inside \<^verbatim>\<open>fetchData\<close>: what the \<^verbatim>\<open>try\<close> block throws becomes
  the error message, shown in place of the rows, with no rows, a total of 0 and
  \<^verbatim>\<open>loading\<close> off. The message is "Failed to fetch tools" for a response that is not ok,
  and for an exception its own message, or "Error loading tools" when that is empty; no
  message names the endpoint. A fetch that delivers sets the page of rows, the length of
  the collection and \<^verbatim>\<open>loading\<close> off, and leaves the error message as it was: it is
  only the head of the effect that clears it. So a cycle that runs alone ends without an
  error when it delivers, and the table shows its rows; a delivery that finds the error
  of another cycle leaves it standing, and the table shows the error.
\<close>

theorem table_fetch_failure:
  "fetchData_try pg rows NotOk = Inl ''Failed to fetch tools'' \<and>
   fetchData_try pg rows (Threw m) = Inl m \<and>
   (let s' = fetchData pg rows NotOk s in
      tableError s' = Some ''Failed to fetch tools'' \<and>
      tableView s' = ShowError ''Failed to fetch tools'' \<and>
      tools s' = [] \<and> total s' = 0 \<and> \<not> loading s') \<and>
   (let s' = fetchData pg rows (Threw m) s; msg = (if m = [] then ''Error loading tools'' else m) in
      tableError s' = Some msg \<and> msg \<noteq> [] \<and> tableView s' = ShowError msg \<and>
      tools s' = [] \<and> total s' = 0 \<and> \<not> loading s') \<and>
   (let s' = fetchData pg rows (Delivered data) s in
      tableError s' = tableError s \<and> \<not> loading s' \<and> total s' = length data \<and>
      tools s' = paginated data pg rows \<and>
      tableView s' =
        (case tableError s of
           Some msg \<Rightarrow>
             if msg \<noteq> [] then ShowError msg
             else if tools s' = [] then ShowNoTools else ShowRows (tools s')
         | None \<Rightarrow> if tools s' = [] then ShowNoTools else ShowRows (tools s'))) \<and>
   (let s' = tableCycle (Delivered data) s in
      tableError s' = None \<and> \<not> loading s' \<and> total s' = length data \<and>
      tools s' = paginated data (page s) (rowsPerPage s) \<and>
      tableView s' = (if tools s' = [] then ShowNoTools else ShowRows (tools s')))"
  by (simp add: tableCycle_def tableEffect_def fetchData_def fetchData_try_def tableView_def Let_def
      split: option.splits)

text \<open>A network failure with the message of the browser, in the initial state.\<close>

theorem table_fetch_failure_witness:
  "tableView (fetchData 1 10 (Threw ''NetworkError when attempting to fetch resource.'') initialHome) =
     ShowError ''NetworkError when attempting to fetch resource.'' \<and>
   tools (fetchData 1 10 (Threw ''NetworkError when attempting to fetch resource.'') initialHome) = [] \<and>
   total (fetchData 1 10 (Threw ''NetworkError when attempting to fetch resource.'') initialHome) = 0 \<and>
   tableView (fetchData 1 10 (Threw []) initialHome) = ShowError ''Error loading tools'' \<and>
   tableError (tableCycle (Delivered sampleTools) initialHome) = None"
  using table_fetch_failure [of 1 10 "''NetworkError when attempting to fetch resource.''" initialHome sampleTools]
    table_fetch_failure [of 1 10 "[]" initialHome sampleTools]
  by (simp add: Let_def)

subsection \<open>C9: a change of the page size\<close>

text \<open>
  C9. Whatever event changes \<^verbatim>\<open>rowsPerPage\<close> leaves \<^verbatim>\<open>page\<close> at 1 in the same step; the
  selection of a page size \<open>val\<close> sets the size to \<open>val\<close> and the page to 1, which for a
  positive size lies between 1 and the page count.
\<close>

theorem page_size_change_resets_page:
  "(rowsPerPage (tableStep e s) \<noteq> rowsPerPage s \<longrightarrow> page (tableStep e s) = 1) \<and>
   page (onValueChange val s) = 1 \<and> rowsPerPage (onValueChange val s) = val \<and>
   (0 < val \<longrightarrow> 1 \<le> page (onValueChange val s) \<and>
      page (onValueChange val s) \<le> totalPagesOf (onValueChange val s))"
proof -
  have "rowsPerPage (press b s) = rowsPerPage s" for b
    by (cases b) (simp_all add: press_def)
  then have a: "rowsPerPage (tableStep e s) \<noteq> rowsPerPage s \<longrightarrow> page (tableStep e s) = 1"
    by (cases e) (auto simp add: rerun_def tableEffect_def onValueChange_def fetchData_def
        split: sum.splits)
  have "0 < val \<Longrightarrow> 1 \<le> totalPagesOf (onValueChange val s)"
    using totalPages_bounds [of val "total s"] by (simp add: totalPagesOf_def onValueChange_def)
  with a show ?thesis by (simp add: onValueChange_def)
qed

text \<open>On page 3 of 25 records in pages of ten, twenty rows per page are selected.\<close>

theorem page_size_change_resets_page_witness:
  "(0::int) < 20 \<and>
   rowsPerPage (tableStep (RowsSelected 20) (initialHome\<lparr>page := 3, total := 25\<rparr>)) \<noteq>
     rowsPerPage (initialHome\<lparr>page := 3, total := 25\<rparr>) \<and>
   page (tableStep (RowsSelected 20) (initialHome\<lparr>page := 3, total := 25\<rparr>)) = 1 \<and>
   page (onValueChange 20 (initialHome\<lparr>page := 3, total := 25\<rparr>)) = 1 \<and>
   page (onValueChange 20 (initialHome\<lparr>page := 3, total := 25\<rparr>)) \<le>
     totalPagesOf (onValueChange 20 (initialHome\<lparr>page := 3, total := 25\<rparr>))"
proof -
  have h: "(0::int) < 20" by simp
  have c: "rowsPerPage (tableStep (RowsSelected 20) (initialHome\<lparr>page := 3, total := 25\<rparr>)) \<noteq>
     rowsPerPage (initialHome\<lparr>page := 3, total := 25\<rparr>)"
    by (simp add: initialHome_def rerun_def tableEffect_def onValueChange_def)
  from h c page_size_change_resets_page [of "RowsSelected 20" "initialHome\<lparr>page := 3, total := 25\<rparr>" 20]
  show ?thesis by blast
qed

subsection \<open>C10: the page stays in range\<close>

text \<open>
  C10. From the initial state, after every event of a sequence of presses of the four
  buttons, selections of an offered page size and completions of fetches, the page is at
  least 1 (and the page size positive). "First" sets the page to 1, "previous" to
  \<open>max 1 (page - 1)\<close>, "next" to \<open>min totalPages (page + 1)\<close> and "last" to \<open>totalPages\<close>;
  a press of "next" or of "last" leaves the page at most the page count of that moment.
\<close>

theorem pager_keeps_page_in_range:
  "(list_all offered evs \<longrightarrow>
      list_all (\<lambda>s'. 1 \<le> page s' \<and> 0 < rowsPerPage s') (tableTrace evs initialHome)) \<and>
   page (onClick FirstPage s) = 1 \<and>
   page (onClick PreviousPage s) = max 1 (page s - 1) \<and>
   page (onClick NextPage s) = min (totalPagesOf s) (page s + 1) \<and>
   page (onClick LastPage s) = totalPagesOf s \<and>
   page (onClick NextPage s) \<le> totalPagesOf s \<and>
   page (onClick LastPage s) \<le> totalPagesOf s \<and>
   (0 < rowsPerPage s \<longrightarrow>
      page (press NextPage s) \<le> totalPagesOf s \<and> page (press LastPage s) \<le> totalPagesOf s) \<and>
   (1 \<le> page s \<and> 0 < rowsPerPage s \<longrightarrow> 1 \<le> page (onClick b s) \<and> 1 \<le> page (press b s))"
proof -
  have init: "1 \<le> page initialHome \<and> 0 < rowsPerPage initialHome"
    by (simp add: initialHome_def)
  have trace: "list_all offered evs \<Longrightarrow>
      list_all (\<lambda>s'. 1 \<le> page s' \<and> 0 < rowsPerPage s') (tableTrace evs initialHome)"
    by (rule tableTrace_keeps [OF init])
  have gated: "page (press NextPage s) \<le> totalPagesOf s \<and> page (press LastPage s) \<le> totalPagesOf s"
    if "0 < rowsPerPage s"
    using totalPagesOf_positive [OF that] by (auto simp add: press_def)
  have low: "1 \<le> page (onClick b s) \<and> 1 \<le> page (press b s)"
    if "1 \<le> page s \<and> 0 < rowsPerPage s"
    using that onClick_keeps [of s b] by (simp add: press_def)
  from trace gated low show ?thesis by simp
qed

text \<open>
  Next, 25 records arrive, next, last, next, previous, twenty rows per page, previous:
  the pages are 1, 1, 2, 3, 3, 2, 1, 1.
\<close>

theorem pager_keeps_page_in_range_witness:
  "list_all offered
     [Pressed NextPage, FetchCompleted 1 10 (Delivered (replicate 25 (toolAt ''2024-01-05''))),
      Pressed NextPage, Pressed LastPage, Pressed NextPage, Pressed PreviousPage,
      RowsSelected 20, Pressed PreviousPage] \<and>
   map page (tableTrace
     [Pressed NextPage, FetchCompleted 1 10 (Delivered (replicate 25 (toolAt ''2024-01-05''))),
      Pressed NextPage, Pressed LastPage, Pressed NextPage, Pressed PreviousPage,
      RowsSelected 20, Pressed PreviousPage] initialHome) = [1, 1, 2, 3, 3, 2, 1, 1] \<and>
   list_all (\<lambda>s'. 1 \<le> page s' \<and> 0 < rowsPerPage s') (tableTrace
     [Pressed NextPage, FetchCompleted 1 10 (Delivered (replicate 25 (toolAt ''2024-01-05''))),
      Pressed NextPage, Pressed LastPage, Pressed NextPage, Pressed PreviousPage,
      RowsSelected 20, Pressed PreviousPage] initialHome)"
proof -
  let ?evs = "[Pressed NextPage, FetchCompleted 1 10 (Delivered (replicate 25 (toolAt ''2024-01-05''))),
      Pressed NextPage, Pressed LastPage, Pressed NextPage, Pressed PreviousPage,
      RowsSelected 20, Pressed PreviousPage]"
  have o: "list_all offered ?evs" by (simp add: ROWS_OPTIONS_def)
  have t: "map page (tableTrace ?evs initialHome) = [1, 1, 2, 3, 3, 2, 1, 1]" by code_simp
  from o pager_keeps_page_in_range [of ?evs initialHome FirstPage]
  have "list_all (\<lambda>s'. 1 \<le> page s' \<and> 0 < rowsPerPage s') (tableTrace ?evs initialHome)" by blast
  with o t show ?thesis by blast
qed

end
